theory Spec2Isabelle
  imports Main "HOL-Library.Sublist"
begin

section \<open>The Optional container of optional.h\<close>

text \<open>
  \<^verbatim>\<open>Optional<T>\<close> holds an embedded sentinel node \<^verbatim>\<open>m_end\<close> and a pointer
  \<^verbatim>\<open>m_container\<close> that is \<^verbatim>\<open>nullptr\<close> or the node allocated by \<^verbatim>\<open>update\<close>.
  The nodes are linked through \<^verbatim>\<open>next\<close>, and the iterator walks that link, so the
  model keeps the pointers: an \<^verbatim>\<open>Item*\<close> is one of three addresses, and the object
  is a small store holding the two nodes.
\<close>

subsection \<open>Pointers, nodes and the object\<close>

text \<open>
  An \<^verbatim>\<open>Item*\<close> of one Optional object: \<^verbatim>\<open>nullptr\<close>, the address \<^verbatim>\<open>&m_end\<close> of the
  embedded sentinel, or the address returned by the only \<^verbatim>\<open>new Item\<close> of the class
  (line 312).
\<close>

datatype Item_ptr = null | addr_m_end | addr_new

text \<open>\<^verbatim>\<open>struct Item { Item* next; T data; }\<close>\<close>

record 'a Item =
  "next" :: Item_ptr
  data :: 'a

text \<open>
  \<^verbatim>\<open>Item() : next(this) { pointerInit(data); }\<close>. The constructor links the node to
  itself. Its \<^verbatim>\<open>data\<close> is a default-initialised \<^verbatim>\<open>T\<close>: the default-constructed value
  of a class type, \<^verbatim>\<open>nullptr\<close> for a pointer type (\<^verbatim>\<open>pointerInit\<close>), and for a scalar
  type whatever the uninitialised member holds. That value is the parameter \<open>d\<close>.
\<close>

definition Item_ctor :: "Item_ptr \<Rightarrow> 'a \<Rightarrow> 'a Item" where
  "Item_ctor this d = \<lparr>next = this, data = d\<rparr>"

text \<open>
  The members of \<^verbatim>\<open>Optional<T>\<close>, and with them the free-store cell \<open>new_Item\<close>
  that \<^verbatim>\<open>new Item\<close> fills (\<open>None\<close> while nothing is allocated).
\<close>

record 'a Optional =
  m_end :: "'a Item"
  m_container :: Item_ptr
  new_Item :: "'a Item option"

text \<open>Reading the node a pointer points to; \<open>None\<close> for a pointer to no node.\<close>

definition load :: "'a Optional \<Rightarrow> Item_ptr \<Rightarrow> 'a Item option" where
  "load s p = (case p of null \<Rightarrow> None | addr_m_end \<Rightarrow> Some (m_end s) | addr_new \<Rightarrow> new_Item s)"

text \<open>
  What a member function can end with besides returning: the \<^verbatim>\<open>std::runtime_error\<close>
  the class throws itself (with its \<^verbatim>\<open>what()\<close> text), an exception thrown by a
  constructor of \<^verbatim>\<open>T\<close> (any exception object, named here by a string), or a read
  through a pointer to no node (undefined behaviour in C++).
\<close>

datatype failure = runtime_error string | T_exception string | invalid_dereference

text \<open>
  A \<^verbatim>\<open>T&\<close> to the \<^verbatim>\<open>data\<close> member of a node: the address of the node, and the value
  read through the reference.
\<close>

type_synonym 'a ref = "Item_ptr \<times> 'a"

subsection \<open>The iterator\<close>

datatype iterator = iterator (m_node: Item_ptr)

text \<open>\<^verbatim>\<open>operator++\<close>: \<^verbatim>\<open>m_node = m_node->next\<close>.\<close>

definition iterator_inc :: "'a Optional \<Rightarrow> iterator \<Rightarrow> failure + iterator" where
  "iterator_inc s it =
     (case load s (m_node it) of
        None \<Rightarrow> Inl invalid_dereference
      | Some n \<Rightarrow> Inr (iterator (next n)))"

text \<open>\<^verbatim>\<open>operator*\<close>: \<^verbatim>\<open>return m_node->data\<close>, with no test of the node.\<close>

definition iterator_deref :: "'a Optional \<Rightarrow> iterator \<Rightarrow> failure + 'a ref" where
  "iterator_deref s it =
     (case load s (m_node it) of
        None \<Rightarrow> Inl invalid_dereference
      | Some n \<Rightarrow> Inr (m_node it, data n))"

definition iterator_eq :: "iterator \<Rightarrow> iterator \<Rightarrow> bool" where
  "iterator_eq a b = (m_node a = m_node b)"

definition iterator_neq :: "iterator \<Rightarrow> iterator \<Rightarrow> bool" where
  "iterator_neq a b = (m_node a \<noteq> m_node b)"

subsection \<open>Member functions\<close>

text \<open>
  \<^verbatim>\<open>update(args...)\<close>, lines 304 to 316. \<open>ctor\<close> is the constructor of \<^verbatim>\<open>T\<close> that
  the arguments select; it returns the new \<^verbatim>\<open>T\<close> or throws. It runs first; then
  the test of \<^verbatim>\<open>m_container\<close>; then the allocation and the three assignments, in
  the order of the source. The result is the outcome together with the object as
  the call leaves it. This is \<^verbatim>\<open>update\<close> when \<^verbatim>\<open>new Item\<close> returns and the assignment
  of \<^verbatim>\<open>T\<close> stores its source; \<open>Optional_update_full\<close> below writes out the failures
  of these two statements and agrees with it in that case.
\<close>

definition Optional_update ::
  "'a \<Rightarrow> ('args \<Rightarrow> string + 'a) \<Rightarrow> 'args \<Rightarrow> 'a Optional \<Rightarrow> (failure + unit) \<times> 'a Optional" where
  "Optional_update d ctor args s =
     (case ctor args of
        Inl e \<Rightarrow> (Inl (T_exception e), s)
      | Inr v \<Rightarrow>
          if m_container s \<noteq> null
          then (Inl (runtime_error ''Something bad happened in Optional''), s)
          else
            let s1 = s\<lparr>new_Item := Some (Item_ctor addr_new d), m_container := addr_new\<rparr>;
                s2 = s1\<lparr>new_Item := map_option (\<lambda>n. n\<lparr>data := v\<rparr>) (new_Item s1)\<rparr>;
                s3 = s2\<lparr>new_Item := map_option (\<lambda>n. n\<lparr>next := addr_m_end\<rparr>) (new_Item s2)\<rparr>;
                s4 = s3\<lparr>m_end := (m_end s3)\<lparr>next := m_container s3\<rparr>\<rparr>
            in (Inr (), s4))"

text \<open>
  The member initialisers \<^verbatim>\<open>m_end(), m_container(nullptr)\<close> shared by the three
  constructors.
\<close>

definition Optional_init :: "'a \<Rightarrow> 'a Optional" where
  "Optional_init d = \<lparr>m_end = Item_ctor addr_m_end d, m_container = null, new_Item = None\<rparr>"

text \<open>\<^verbatim>\<open>Optional()\<close>: the initialisers and an empty body.\<close>

definition Optional_default :: "'a \<Rightarrow> 'a Optional" where
  "Optional_default d = Optional_init d"

text \<open>
  \<^verbatim>\<open>Optional(Args&&... args)\<close>: the initialisers, then \<^verbatim>\<open>update(args...)\<close>. An
  exception leaving the constructor leaves no object behind.
\<close>

definition Optional_emplace :: "'a \<Rightarrow> ('args \<Rightarrow> string + 'a) \<Rightarrow> 'args \<Rightarrow> failure + 'a Optional" where
  "Optional_emplace d ctor args =
     (case Optional_update d ctor args (Optional_init d) of
        (Inl e, _) \<Rightarrow> Inl e
      | (Inr _, s) \<Rightarrow> Inr s)"

text \<open>
  The copy constructor of \<^verbatim>\<open>T\<close>, which \<^verbatim>\<open>update(data)\<close> selects for an argument of
  type \<^verbatim>\<open>const T&\<close>: the copy is equal to the original. A copy constructor that
  throws is a \<open>ctor\<close> of the emplacing constructor that returns \<open>Inl\<close>.
\<close>

definition T_copy :: "'a \<Rightarrow> string + 'a" where
  "T_copy v = Inr v"

text \<open>\<^verbatim>\<open>explicit Optional(const T& data)\<close>: the initialisers, then \<^verbatim>\<open>update(data)\<close>.\<close>

definition Optional_copy :: "'a \<Rightarrow> 'a \<Rightarrow> failure + 'a Optional" where
  "Optional_copy d v =
     (case Optional_update d T_copy v (Optional_init d) of
        (Inl e, _) \<Rightarrow> Inl e
      | (Inr _, s) \<Rightarrow> Inr s)"

definition Optional_begin :: "'a Optional \<Rightarrow> iterator" where
  "Optional_begin s = iterator (next (m_end s))"

definition Optional_end :: "'a Optional \<Rightarrow> iterator" where
  "Optional_end s = iterator addr_m_end"

definition Optional_empty :: "'a Optional \<Rightarrow> bool" where
  "Optional_empty s = (m_container s = null)"

definition Optional_defined :: "'a Optional \<Rightarrow> bool" where
  "Optional_defined s = (m_container s \<noteq> null)"

text \<open>
  The text of the exception of \<^verbatim>\<open>get()\<close>. \<^verbatim>\<open>__FILE__\<close> is the name the header was
  compiled under, a parameter; \<^verbatim>\<open>__LINE__\<close> is line 290 of the header.
\<close>

definition access_message :: "string \<Rightarrow> string" where
  "access_message path =
     ''The Optional needs to be set before access ('' @ path @ '':'' @ ''290'' @ '')''"

text \<open>\<^verbatim>\<open>get()\<close>, lines 279 to 294.\<close>

definition Optional_get :: "string \<Rightarrow> 'a Optional \<Rightarrow> failure + 'a ref" where
  "Optional_get path s =
     (if m_container s \<noteq> null
      then (case load s (m_container s) of
              None \<Rightarrow> Inl invalid_dereference
            | Some n \<Rightarrow> Inr (m_container s, data n))
      else Inl (runtime_error (access_message path)))"

subsection \<open>update with the failures of T written out\<close>

text \<open>
  Between the test of \<^verbatim>\<open>m_container\<close> and the end of \<^verbatim>\<open>update\<close> two more statements
  can throw. \<^verbatim>\<open>new Item\<close> (line 312) throws when the allocation fails or when the default
  constructor of \<^verbatim>\<open>T\<close> throws; the new-expression then frees the memory and nothing has
  been assigned. \<open>new_item\<close> is its outcome: the exception, or the default-initialised
  \<^verbatim>\<open>T\<close> of the new node. \<^verbatim>\<open>m_container->data = std::move(data)\<close> (line 313) runs the
  assignment operator of \<^verbatim>\<open>T\<close>, after \<^verbatim>\<open>m_container\<close> has been assigned; \<open>assign t v\<close> is
  its outcome on a target holding \<open>t\<close> and a source \<open>v\<close>: the value the target then
  holds, or the exception together with what the target is left holding. The class
  catches nothing, so each exception leaves \<^verbatim>\<open>update\<close> at the statement that threw.
\<close>

definition Optional_update_full ::
  "('args \<Rightarrow> string + 'a) \<Rightarrow> (string + 'a) \<Rightarrow> ('a \<Rightarrow> 'a \<Rightarrow> string \<times> 'a + 'a) \<Rightarrow> 'args \<Rightarrow>
   'a Optional \<Rightarrow> (failure + unit) \<times> 'a Optional" where
  "Optional_update_full ctor new_item assign args s =
     (case ctor args of
        Inl e \<Rightarrow> (Inl (T_exception e), s)
      | Inr v \<Rightarrow>
          if m_container s \<noteq> null
          then (Inl (runtime_error ''Something bad happened in Optional''), s)
          else
            (case new_item of
               Inl e \<Rightarrow> (Inl (T_exception e), s)
             | Inr d \<Rightarrow>
                 let s1 = s\<lparr>new_Item := Some (Item_ctor addr_new d), m_container := addr_new\<rparr>
                 in (case assign d v of
                       Inl (e, x) \<Rightarrow>
                         (Inl (T_exception e),
                          s1\<lparr>new_Item := map_option (\<lambda>n. n\<lparr>data := x\<rparr>) (new_Item s1)\<rparr>)
                     | Inr w \<Rightarrow>
                         let s2 = s1\<lparr>new_Item := map_option (\<lambda>n. n\<lparr>data := w\<rparr>) (new_Item s1)\<rparr>;
                             s3 = s2\<lparr>new_Item := map_option (\<lambda>n. n\<lparr>next := addr_m_end\<rparr>) (new_Item s2)\<rparr>;
                             s4 = s3\<lparr>m_end := (m_end s3)\<lparr>next := m_container s3\<rparr>\<rparr>
                         in (Inr (), s4))))"

text \<open>
  \<^verbatim>\<open>Optional(Args&&... args)\<close> over it. An exception that leaves the body of a
  constructor destroys the members but does not run \<^verbatim>\<open>~Optional()\<close>, which holds the
  only \<^verbatim>\<open>delete m_container\<close>: a node allocated before the exception stays on the free
  store. The failure is returned together with that node (\<open>None\<close> when there is none).
\<close>

definition Optional_emplace_full ::
  "'a \<Rightarrow> ('args \<Rightarrow> string + 'a) \<Rightarrow> (string + 'a) \<Rightarrow> ('a \<Rightarrow> 'a \<Rightarrow> string \<times> 'a + 'a) \<Rightarrow> 'args \<Rightarrow>
   failure \<times> 'a Item option + 'a Optional" where
  "Optional_emplace_full d ctor new_item assign args =
     (case Optional_update_full ctor new_item assign args (Optional_init d) of
        (Inl e, s) \<Rightarrow> Inl (e, new_Item s)
      | (Inr _, s) \<Rightarrow> Inr s)"

subsection \<open>Traversal\<close>

text \<open>
  The loop of the callers,
  \<^verbatim>\<open>for (auto it = opt.begin(); it != opt.end(); ++it) { ... *it ... }\<close>
  (the range-based \<^verbatim>\<open>for\<close> is the same loop). It collects the references it
  dereferences. Nothing in the loop bounds the number of steps, so it is a partial
  function: \<open>None\<close> is a traversal that never ends.
\<close>

partial_function (option) for_loop ::
  "'a Optional \<Rightarrow> iterator \<Rightarrow> 'a ref list \<Rightarrow> (failure + 'a ref list) option" where
  "for_loop s it acc =
     (if iterator_neq it (Optional_end s)
      then (case iterator_deref s it of
              Inl f \<Rightarrow> Some (Inl f)
            | Inr x \<Rightarrow>
                (case iterator_inc s it of
                   Inl f \<Rightarrow> Some (Inl f)
                 | Inr it' \<Rightarrow> for_loop s it' (acc @ [x])))
      else Some (Inr acc))"

declare for_loop.simps [code]

definition traverse :: "'a Optional \<Rightarrow> (failure + 'a ref list) option" where
  "traverse s = for_loop s (Optional_begin s) []"

subsection \<open>Containers and the public interface\<close>

text \<open>
  The containers a caller can hold: the objects the three public constructors
  return. \<open>d\<close> is the default-initialised \<^verbatim>\<open>T\<close> and \<open>ctor\<close> the constructor of
  \<^verbatim>\<open>T\<close> that emplacement forwards to. A copy of a container, made by the implicit
  copy constructor or copy assignment, is not one of them; it is the subject of the
  last subsection of the model.
\<close>

inductive constructed :: "'a \<Rightarrow> ('args \<Rightarrow> string + 'a) \<Rightarrow> 'a Optional \<Rightarrow> bool"
  for d :: 'a and ctor :: "'args \<Rightarrow> string + 'a" where
  by_default: "constructed d ctor (Optional_default d)"
| by_copy: "Optional_copy d v = Inr s \<Longrightarrow> constructed d ctor s"
| by_emplace: "Optional_emplace d ctor args = Inr s \<Longrightarrow> constructed d ctor s"

code_pred constructed .

text \<open>
  The public member functions a caller can invoke on a container and on its
  iterators, with the traversal loop as one more call, and what each hands back. No
  member function of the class other than \<^verbatim>\<open>update\<close> assigns to a member or
  writes through a pointer (\<^verbatim>\<open>operator++\<close> assigns to the iterator only), so each
  call leaves the object as it found it; \<open>invoke\<close> returns the answer and that object.
\<close>

datatype call =
    call_empty | call_defined | call_get | call_begin | call_end
  | call_inc iterator | call_deref iterator
  | call_eq iterator iterator | call_neq iterator iterator
  | call_traverse

datatype 'a answer =
    answer_bool bool
  | answer_ref "failure + 'a ref"
  | answer_iterator iterator
  | answer_inc "failure + iterator"
  | answer_refs "(failure + 'a ref list) option"

definition invoke :: "string \<Rightarrow> call \<Rightarrow> 'a Optional \<Rightarrow> 'a answer \<times> 'a Optional" where
  "invoke path c s =
     (case c of
        call_empty \<Rightarrow> (answer_bool (Optional_empty s), s)
      | call_defined \<Rightarrow> (answer_bool (Optional_defined s), s)
      | call_get \<Rightarrow> (answer_ref (Optional_get path s), s)
      | call_begin \<Rightarrow> (answer_iterator (Optional_begin s), s)
      | call_end \<Rightarrow> (answer_iterator (Optional_end s), s)
      | call_inc it \<Rightarrow> (answer_inc (iterator_inc s it), s)
      | call_deref it \<Rightarrow> (answer_ref (iterator_deref s it), s)
      | call_eq a b \<Rightarrow> (answer_bool (iterator_eq a b), s)
      | call_neq a b \<Rightarrow> (answer_bool (iterator_neq a b), s)
      | call_traverse \<Rightarrow> (answer_refs (traverse s), s))"

text \<open>A sequence of calls, each on the object the one before left.\<close>

fun invoke_all :: "string \<Rightarrow> call list \<Rightarrow> 'a Optional \<Rightarrow> 'a answer list \<times> 'a Optional" where
  "invoke_all path [] s = ([], s)"
| "invoke_all path (c # cs) s =
     (case invoke path c s of
        (a, s') \<Rightarrow> (case invoke_all path cs s' of (as, s'') \<Rightarrow> (a # as, s'')))"

subsection \<open>A copy of a container\<close>

text \<open>
  The class declares a destructor and no copy constructor or copy assignment, so both
  are implicit and public: \<^verbatim>\<open>Optional<T> b(a)\<close> for a \<^verbatim>\<open>const\<close> \<open>a\<close>, and \<^verbatim>\<open>b = a\<close>, copy
  \<^verbatim>\<open>m_end\<close> and \<^verbatim>\<open>m_container\<close> member by member (\<^verbatim>\<open>Item\<close> likewise copies \<^verbatim>\<open>next\<close> and
  \<^verbatim>\<open>data\<close>), and allocate nothing. Every pointer the copy \<open>b\<close> holds is therefore a
  pointer of the original \<open>a\<close>, into the storage of \<open>a\<close>.
\<close>

record 'a copied =
  c_m_end :: "'a Item"
  c_m_container :: Item_ptr

definition implicit_copy :: "'a Optional \<Rightarrow> 'a copied" where
  "implicit_copy a = \<lparr>c_m_end = m_end a, c_m_container = m_container a\<rparr>"

text \<open>\<^verbatim>\<open>empty()\<close> called on the copy.\<close>

definition copy_empty :: "'a copied \<Rightarrow> bool" where
  "copy_empty b = (c_m_container b = null)"

text \<open>
  An \<^verbatim>\<open>Item*\<close> in a program that holds \<open>a\<close> and its copy \<open>b\<close>: a pointer of \<open>a\<close>
  (\<^verbatim>\<open>nullptr\<close>, \<^verbatim>\<open>&a.m_end\<close> or the node of \<open>a\<close>), or the address \<^verbatim>\<open>&b.m_end\<close> of the
  sentinel of the copy. An iterator of the copy holds one of these.
\<close>

datatype address = in_original Item_ptr | copy_m_end

datatype copy_iterator = copy_iterator (c_node: address)

definition copy_load :: "'a Optional \<Rightarrow> 'a copied \<Rightarrow> address \<Rightarrow> 'a Item option" where
  "copy_load a b p = (case p of in_original q \<Rightarrow> load a q | copy_m_end \<Rightarrow> Some (c_m_end b))"

text \<open>
  The member functions of the traversal with \<^verbatim>\<open>this\<close> the copy: \<^verbatim>\<open>begin()\<close> is
  \<^verbatim>\<open>iterator(m_end.next)\<close>, \<^verbatim>\<open>end()\<close> is \<^verbatim>\<open>iterator(&m_end)\<close>, and the operators of the
  iterator are as before.
\<close>

definition copy_begin :: "'a copied \<Rightarrow> copy_iterator" where
  "copy_begin b = copy_iterator (in_original (next (c_m_end b)))"

definition copy_end :: "'a copied \<Rightarrow> copy_iterator" where
  "copy_end b = copy_iterator copy_m_end"

definition copy_inc :: "'a Optional \<Rightarrow> 'a copied \<Rightarrow> copy_iterator \<Rightarrow> failure + copy_iterator" where
  "copy_inc a b it =
     (case copy_load a b (c_node it) of
        None \<Rightarrow> Inl invalid_dereference
      | Some n \<Rightarrow> Inr (copy_iterator (in_original (next n))))"

definition copy_deref ::
  "'a Optional \<Rightarrow> 'a copied \<Rightarrow> copy_iterator \<Rightarrow> failure + address \<times> 'a" where
  "copy_deref a b it =
     (case copy_load a b (c_node it) of
        None \<Rightarrow> Inl invalid_dereference
      | Some n \<Rightarrow> Inr (c_node it, data n))"

definition copy_neq :: "copy_iterator \<Rightarrow> copy_iterator \<Rightarrow> bool" where
  "copy_neq x y = (c_node x \<noteq> c_node y)"

text \<open>The loop of the callers over the copy; \<open>None\<close> is a traversal that never ends.\<close>

partial_function (option) copy_for_loop ::
  "'a Optional \<Rightarrow> 'a copied \<Rightarrow> copy_iterator \<Rightarrow> (address \<times> 'a) list \<Rightarrow>
   (failure + (address \<times> 'a) list) option" where
  "copy_for_loop a b it acc =
     (if copy_neq it (copy_end b)
      then (case copy_deref a b it of
              Inl f \<Rightarrow> Some (Inl f)
            | Inr x \<Rightarrow>
                (case copy_inc a b it of
                   Inl f \<Rightarrow> Some (Inl f)
                 | Inr it' \<Rightarrow> copy_for_loop a b it' (acc @ [x])))
      else Some (Inr acc))"

declare copy_for_loop.simps [code]

definition copy_traverse ::
  "'a Optional \<Rightarrow> 'a copied \<Rightarrow> (failure + (address \<times> 'a) list) option" where
  "copy_traverse a b = copy_for_loop a b (copy_begin b) []"

section \<open>Properties\<close>

subsection \<open>The two shapes of a container\<close>

lemma update_init:
  "ctor args = Inr v \<Longrightarrow>
   Optional_update d ctor args (Optional_init d) =
     (Inr (), \<lparr>m_end = \<lparr>next = addr_new, data = d\<rparr>, m_container = addr_new,
               new_Item = Some \<lparr>next = addr_m_end, data = v\<rparr>\<rparr>)"
  by (simp add: Optional_update_def Optional_init_def Item_ctor_def)

lemma update_init_throw:
  "ctor args = Inl e \<Longrightarrow>
   Optional_update d ctor args (Optional_init d) = (Inl (T_exception e), Optional_init d)"
  by (simp add: Optional_update_def)

lemma emplace_Inr:
  "Optional_emplace d ctor args = Inr s \<Longrightarrow>
   \<exists>v. ctor args = Inr v \<and>
       s = \<lparr>m_end = \<lparr>next = addr_new, data = d\<rparr>, m_container = addr_new,
            new_Item = Some \<lparr>next = addr_m_end, data = v\<rparr>\<rparr>"
  by (cases "ctor args") (simp_all add: Optional_emplace_def update_init update_init_throw)

lemma copy_Inr:
  "Optional_copy d v =
     Inr \<lparr>m_end = \<lparr>next = addr_new, data = d\<rparr>, m_container = addr_new,
          new_Item = Some \<lparr>next = addr_m_end, data = v\<rparr>\<rparr>"
  by (simp add: Optional_copy_def update_init T_copy_def)

lemma constructed_shape:
  assumes "constructed d ctor s"
  shows "s = Optional_init d \<or>
         (\<exists>v. s = \<lparr>m_end = \<lparr>next = addr_new, data = d\<rparr>, m_container = addr_new,
                   new_Item = Some \<lparr>next = addr_m_end, data = v\<rparr>\<rparr>)"
  using assms
proof cases
  case by_default
  then show ?thesis by (simp add: Optional_default_def)
next
  case (by_copy v)
  then have "s = \<lparr>m_end = \<lparr>next = addr_new, data = d\<rparr>, m_container = addr_new,
                   new_Item = Some \<lparr>next = addr_m_end, data = v\<rparr>\<rparr>"
    by (simp only: copy_Inr sum.inject)
  then show ?thesis by (intro disjI2 exI)
next
  case (by_emplace args)
  from emplace_Inr [OF this] obtain v where
    "s = \<lparr>m_end = \<lparr>next = addr_new, data = d\<rparr>, m_container = addr_new,
                   new_Item = Some \<lparr>next = addr_m_end, data = v\<rparr>\<rparr>"
    by (elim exE conjE)
  then show ?thesis by (intro disjI2 exI)
qed

lemma traverse_init: "traverse (Optional_init d) = Some (Inr [])"
  by (simp add: traverse_def for_loop.simps Optional_begin_def Optional_end_def
      Optional_init_def Item_ctor_def iterator_neq_def)

lemma traverse_set:
  "traverse \<lparr>m_end = \<lparr>next = addr_new, data = d\<rparr>, m_container = addr_new,
            new_Item = Some \<lparr>next = addr_m_end, data = v\<rparr>\<rparr> = Some (Inr [(addr_new, v)])"
  by (simp add: traverse_def for_loop.simps Optional_begin_def Optional_end_def
      iterator_neq_def iterator_deref_def iterator_inc_def load_def)

lemma invoke_state: "snd (invoke path c s) = s"
  by (cases c) (simp_all add: invoke_def)

lemma invoke_all_state: "snd (invoke_all path cs s) = s"
proof (induction cs arbitrary: s)
  case Nil
  show ?case by simp
next
  case (Cons c cs)
  have "snd (invoke_all path (c # cs) s) = snd (invoke_all path cs (snd (invoke path c s)))"
    by (simp add: case_prod_beta)
  also have "\<dots> = snd (invoke path c s)" by (rule Cons.IH)
  also have "\<dots> = s" by (rule invoke_state)
  finally show ?case .
qed

lemma default_constructed: "constructed d ctor (Optional_init d)"
  using by_default [of d ctor] by (simp add: Optional_default_def)

lemma copy_constructed:
  "constructed d ctor \<lparr>m_end = \<lparr>next = addr_new, data = d\<rparr>, m_container = addr_new,
                       new_Item = Some \<lparr>next = addr_m_end, data = v\<rparr>\<rparr>"
  by (rule by_copy [OF copy_Inr])

subsection \<open>update and its failures\<close>

text \<open>
  When \<^verbatim>\<open>new Item\<close> returns and the assignment of \<^verbatim>\<open>T\<close> stores its source,
  \<open>Optional_update_full\<close> is \<open>Optional_update\<close>.
\<close>

lemma update_full_nothrow:
  "Optional_update_full ctor (Inr d) (\<lambda>t v. Inr v) args s = Optional_update d ctor args s"
  by (simp add: Optional_update_full_def Optional_update_def Let_def split: sum.splits)

text \<open>
  As long as the assignment of \<^verbatim>\<open>T\<close> does not throw, a failing \<^verbatim>\<open>update\<close> leaves the
  object as it found it: the constructor of \<^verbatim>\<open>T\<close>, the test and \<^verbatim>\<open>new Item\<close> all fail
  before anything is assigned.
\<close>

lemma update_full_clean:
  assumes "fst (Optional_update_full ctor new_item assign args s) = Inl f"
    and "\<forall>t v e x. assign t v \<noteq> Inl (e, x)"
  shows "snd (Optional_update_full ctor new_item assign args s) = s"
  using assms
  by (auto simp add: Optional_update_full_def Let_def split: sum.splits if_splits prod.splits)

subsection \<open>Traversing a copy\<close>

text \<open>
  If the nodes of the original reachable from a set \<open>S\<close> of its pointers link back into
  \<open>S\<close>, a loop over the copy that stands on a pointer in \<open>S\<close> never returns: no pointer of
  the original is the address of the copy's sentinel.
\<close>

lemma copy_for_loop_cycle:
  assumes cl: "\<And>q. q \<in> S \<Longrightarrow> \<exists>n. load a q = Some n \<and> next n \<in> S"
    and r: "copy_for_loop a' b' it acc = Some r"
  shows "\<not> (a' = a \<and> (\<exists>q\<in>S. c_node it = in_original q))"
proof (rule copy_for_loop.raw_induct
    [where P = "\<lambda>a' b' it acc r. \<not> (a' = a \<and> (\<exists>q\<in>S. c_node it = in_original q))", OF _ r])
  fix f :: "'a Optional \<Rightarrow> 'a copied \<Rightarrow> copy_iterator \<Rightarrow> (address \<times> 'a) list \<Rightarrow>
            (failure + (address \<times> 'a) list) option"
  fix a' b' it acc r
  assume IH: "\<And>a' b' it acc r. f a' b' it acc = Some r \<Longrightarrow>
                \<not> (a' = a \<and> (\<exists>q\<in>S. c_node it = in_original q))"
  assume eq: "(if copy_neq it (copy_end b')
      then case copy_deref a' b' it of Inl f \<Rightarrow> Some (Inl f)
           | Inr x \<Rightarrow>
               case copy_inc a' b' it of Inl f \<Rightarrow> Some (Inl f)
               | Inr it' \<Rightarrow> f a' b' it' (acc @ [x])
      else Some (Inr acc)) = Some r"
  show "\<not> (a' = a \<and> (\<exists>q\<in>S. c_node it = in_original q))"
  proof
    assume h: "a' = a \<and> (\<exists>q\<in>S. c_node it = in_original q)"
    then obtain q where q: "q \<in> S" "c_node it = in_original q" and a: "a' = a" by auto
    from cl [OF q(1)] obtain n where n: "load a q = Some n" "next n \<in> S" by auto
    from eq q n a
    have "f a b' (copy_iterator (in_original (next n))) (acc @ [(in_original q, data n)]) = Some r"
      by (simp add: copy_neq_def copy_end_def copy_deref_def copy_inc_def copy_load_def)
    from IH [OF this] n(2) show False by simp
  qed
qed

lemma copy_traverse_never_ends:
  assumes cl: "\<And>q. q \<in> S \<Longrightarrow> \<exists>n. load a q = Some n \<and> next n \<in> S"
    and b: "next (c_m_end b) \<in> S"
  shows "copy_traverse a b = None"
proof (cases "copy_traverse a b")
  case None
  then show ?thesis .
next
  case (Some r)
  then have "copy_for_loop a b (copy_begin b) [] = Some r"
    by (simp add: copy_traverse_def)
  from copy_for_loop_cycle [of S a, OF cl this] b show ?thesis
    by (simp add: copy_begin_def)
qed

lemma copy_of_empty_never_ends:
  "copy_traverse (Optional_init d) (implicit_copy (Optional_init d)) = None"
proof (rule copy_traverse_never_ends [of "{addr_m_end}"])
  fix q :: Item_ptr
  assume "q \<in> {addr_m_end}"
  then show "\<exists>n. load (Optional_init d) q = Some n \<and> next n \<in> {addr_m_end}"
    by (simp add: load_def Optional_init_def Item_ctor_def)
next
  show "next (c_m_end (implicit_copy (Optional_init d))) \<in> {addr_m_end}"
    by (simp add: implicit_copy_def Optional_init_def Item_ctor_def)
qed

lemma copy_of_set_never_ends:
  "copy_traverse
     \<lparr>m_end = \<lparr>next = addr_new, data = d\<rparr>, m_container = addr_new,
      new_Item = Some \<lparr>next = addr_m_end, data = v\<rparr>\<rparr>
     (implicit_copy
       \<lparr>m_end = \<lparr>next = addr_new, data = d\<rparr>, m_container = addr_new,
        new_Item = Some \<lparr>next = addr_m_end, data = v\<rparr>\<rparr>) = None"
proof (rule copy_traverse_never_ends [of "{addr_m_end, addr_new}"])
  fix q :: Item_ptr
  assume "q \<in> {addr_m_end, addr_new}"
  then have "q = addr_m_end \<or> q = addr_new" by simp
  then show "\<exists>n. load \<lparr>m_end = \<lparr>next = addr_new, data = d\<rparr>, m_container = addr_new,
      new_Item = Some \<lparr>next = addr_m_end, data = v\<rparr>\<rparr> q = Some n \<and>
      next n \<in> {addr_m_end, addr_new}"
    by (elim disjE) (simp_all add: load_def)
next
  show "next (c_m_end (implicit_copy \<lparr>m_end = \<lparr>next = addr_new, data = d\<rparr>,
      m_container = addr_new, new_Item = Some \<lparr>next = addr_m_end, data = v\<rparr>\<rparr>)) \<in>
      {addr_m_end, addr_new}"
    by (simp add: implicit_copy_def)
qed

subsection \<open>Emptiness queries\<close>

text \<open>
  C7. On every object \<^verbatim>\<open>empty()\<close> is the negation of \<^verbatim>\<open>defined()\<close>; both return a
  boolean on every object and leave the object as it was.
\<close>

theorem empty_defined_duality:
  "Optional_empty s = (\<not> Optional_defined s) \<and>
   invoke path call_empty s = (answer_bool (Optional_empty s), s) \<and>
   invoke path call_defined s = (answer_bool (Optional_defined s), s)"
  by (simp add: Optional_empty_def Optional_defined_def invoke_def)

text \<open>
  C9. The default constructor has no failing branch, and the container it returns is
  empty: \<^verbatim>\<open>m_container\<close> is \<^verbatim>\<open>nullptr\<close>, \<^verbatim>\<open>empty()\<close> is true and \<^verbatim>\<open>defined()\<close> false.
\<close>

theorem default_is_empty:
  "Optional_empty (Optional_default d) \<and>
   m_container (Optional_default d) = null \<and>
   \<not> Optional_defined (Optional_default d)"
  by (simp add: Optional_empty_def Optional_defined_def Optional_default_def Optional_init_def)

subsection \<open>Access\<close>



subsection \<open>Construction\<close>

text \<open>
  C3. The constructor from a value \<open>v\<close> returns a container on which \<^verbatim>\<open>defined()\<close>
  is true and \<^verbatim>\<open>get()\<close> returns \<open>v\<close>. The emplacing constructor, when the constructor
  of \<^verbatim>\<open>T\<close> returns \<open>v\<close> for the arguments, returns a container on which
  \<^verbatim>\<open>defined()\<close> is true and \<^verbatim>\<open>get()\<close> returns \<open>v\<close>.
\<close>

theorem constructed_with_value:
  "(\<exists>s. Optional_copy d v = Inr s \<and> Optional_defined s \<and>
        Optional_get path s = Inr (addr_new, v)) \<and>
   (ctor args = Inr v \<longrightarrow>
      (\<exists>s. Optional_emplace d ctor args = Inr s \<and> Optional_defined s \<and>
           Optional_get path s = Inr (addr_new, v)))"
  by (simp add: copy_Inr Optional_emplace_def update_init Optional_defined_def
      Optional_get_def load_def)

text \<open>
  A string built from a character array and a length, as \<^verbatim>\<open>std::string(const char*,
  size_t)\<close> builds it.
\<close>

theorem constructed_with_value_witness:
  "(\<lambda>(p, n). Inr (take n p)) (''90 and more'', 2::nat) = (Inr ''90'' :: string + string) \<and>
   (\<exists>s. Optional_emplace '''' (\<lambda>(p, n). Inr (take n p)) (''90 and more'', 2::nat) = Inr s \<and>
        Optional_defined s \<and> Optional_get ''optional.h'' s = Inr (addr_new, ''90''))"
  using constructed_with_value
    [where ctor = "\<lambda>(p, n). Inr (take n p)" and args = "(''90 and more'', 2::nat)"
       and v = "''90''" and d = "''''" and path = "''optional.h''"]
  by simp

subsection \<open>Iteration\<close>

text \<open>
  On a container returned by one of the three constructors the traversal from
  \<^verbatim>\<open>begin()\<close> to \<^verbatim>\<open>end()\<close> ends. On an empty container it yields no element and no
  failure; on a defined one it yields exactly one element, the reference \<^verbatim>\<open>get()\<close>
  returns, which for a container built from \<open>v\<close> reads \<open>v\<close>. A traversal leaves the
  container as it was, so a second traversal gives the same answer.
\<close>

lemma traversal_cardinality:
  assumes "constructed d ctor s"
  shows "(Optional_empty s \<longrightarrow> traverse s = Some (Inr [])) \<and>
         (Optional_defined s \<longrightarrow>
            (\<exists>r. Optional_get path s = Inr r \<and> traverse s = Some (Inr [r]))) \<and>
         (\<forall>v s'. Optional_copy d v = Inr s' \<longrightarrow> traverse s' = Some (Inr [(addr_new, v)])) \<and>
         (\<forall>a s'. invoke path call_traverse s = (a, s') \<longrightarrow>
                 invoke path call_traverse s' = (a, s'))"
proof -
  have copies: "\<forall>v s'. Optional_copy d v = Inr s' \<longrightarrow> traverse s' = Some (Inr [(addr_new, v)])"
    by (simp add: copy_Inr traverse_set)
  have again: "\<forall>a s'. invoke path call_traverse s = (a, s') \<longrightarrow>
                 invoke path call_traverse s' = (a, s')"
    by (simp add: invoke_def)
  from constructed_shape [OF assms]
  have "(Optional_empty s \<longrightarrow> traverse s = Some (Inr [])) \<and>
        (Optional_defined s \<longrightarrow>
           (\<exists>r. Optional_get path s = Inr r \<and> traverse s = Some (Inr [r])))"
  proof (elim disjE exE)
    assume "s = Optional_init d"
    then show ?thesis
      by (simp add: traverse_init) (simp add: Optional_init_def Optional_defined_def)
  next
    fix v
    assume "s = \<lparr>m_end = \<lparr>next = addr_new, data = d\<rparr>, m_container = addr_new,
                 new_Item = Some \<lparr>next = addr_m_end, data = v\<rparr>\<rparr>"
    then show ?thesis
      by (simp add: traverse_set) (simp add: Optional_empty_def Optional_get_def load_def)
  qed
  with copies again show ?thesis by (intro conjI) (elim conjE, assumption)+
qed

text \<open>
  C2 fails on a copy. Take a default-constructed \<^verbatim>\<open>Optional<std::string>\<close> \<open>a\<close> and a
  copy \<open>b\<close> of it made by the implicit copy constructor or copy assignment. The
  traversal of \<open>a\<close> yields no element; \<open>b\<close> is empty as well, but its traversal never
  ends: \<^verbatim>\<open>b.begin()\<close> is the sentinel of \<open>a\<close>, which is linked to itself and is
  not \<^verbatim>\<open>b.end()\<close>. The traversal of a copy of the container built from "42" never
  ends either: it yields "42" and then walks the two nodes of the original for ever.
\<close>

theorem copy_traversal_never_ends:
  "traverse (Optional_default '''') = Some (Inr []) \<and>
   copy_empty (implicit_copy (Optional_default '''')) \<and>
   copy_traverse (Optional_default '''') (implicit_copy (Optional_default '''')) = None \<and>
   Optional_copy '''' ''42'' =
     Inr \<lparr>m_end = \<lparr>next = addr_new, data = ''''\<rparr>, m_container = addr_new,
          new_Item = Some \<lparr>next = addr_m_end, data = ''42''\<rparr>\<rparr> \<and>
   copy_traverse
     \<lparr>m_end = \<lparr>next = addr_new, data = ''''\<rparr>, m_container = addr_new,
      new_Item = Some \<lparr>next = addr_m_end, data = ''42''\<rparr>\<rparr>
     (implicit_copy
       \<lparr>m_end = \<lparr>next = addr_new, data = ''''\<rparr>, m_container = addr_new,
        new_Item = Some \<lparr>next = addr_m_end, data = ''42''\<rparr>\<rparr>) = None"
proof (intro conjI)
  show "traverse (Optional_default '''') = Some (Inr [])"
    by (simp add: Optional_default_def traverse_init)
  show "copy_empty (implicit_copy (Optional_default ''''))"
    by (simp add: copy_empty_def implicit_copy_def Optional_default_def Optional_init_def)
  show "copy_traverse (Optional_default '''') (implicit_copy (Optional_default '''')) = None"
    unfolding Optional_default_def by (rule copy_of_empty_never_ends)
  show "Optional_copy '''' ''42'' =
     Inr \<lparr>m_end = \<lparr>next = addr_new, data = ''''\<rparr>, m_container = addr_new,
          new_Item = Some \<lparr>next = addr_m_end, data = ''42''\<rparr>\<rparr>"
    by (rule copy_Inr)
  show "copy_traverse
     \<lparr>m_end = \<lparr>next = addr_new, data = ''''\<rparr>, m_container = addr_new,
      new_Item = Some \<lparr>next = addr_m_end, data = ''42''\<rparr>\<rparr>
     (implicit_copy
       \<lparr>m_end = \<lparr>next = addr_new, data = ''''\<rparr>, m_container = addr_new,
        new_Item = Some \<lparr>next = addr_m_end, data = ''42''\<rparr>\<rparr>) = None"
    by (rule copy_of_set_never_ends)
qed

text \<open>
  C10. On a defined container, dereferencing the iterator \<^verbatim>\<open>begin()\<close> returns and
  \<^verbatim>\<open>get()\<close> return the same reference: the \<^verbatim>\<open>data\<close> of the node \<^verbatim>\<open>m_container\<close>
  points to, with the same value read through it.
\<close>

theorem begin_deref_is_get:
  assumes "constructed d ctor s" and "Optional_defined s"
  shows "\<exists>r. Optional_get path s = Inr r \<and>
             iterator_deref s (Optional_begin s) = Inr r \<and>
             fst r = m_container s"
  using constructed_shape [OF assms(1)]
proof (elim disjE exE)
  assume "s = Optional_init d"
  with assms(2) show ?thesis
    by (simp add: Optional_init_def Optional_defined_def)
next
  fix v
  assume "s = \<lparr>m_end = \<lparr>next = addr_new, data = d\<rparr>, m_container = addr_new,
               new_Item = Some \<lparr>next = addr_m_end, data = v\<rparr>\<rparr>"
  then show ?thesis
    by (simp add: Optional_get_def iterator_deref_def Optional_begin_def load_def)
qed

theorem begin_deref_is_get_witness:
  "constructed (''''::string) (T_copy :: string \<Rightarrow> string + string)
     \<lparr>m_end = \<lparr>next = addr_new, data = ''''\<rparr>, m_container = addr_new,
      new_Item = Some \<lparr>next = addr_m_end, data = ''42''\<rparr>\<rparr> \<and>
   Optional_defined \<lparr>m_end = \<lparr>next = addr_new, data = ''''::string\<rparr>, m_container = addr_new,
                     new_Item = Some \<lparr>next = addr_m_end, data = ''42''\<rparr>\<rparr> \<and>
   Optional_get ''optional.h''
     \<lparr>m_end = \<lparr>next = addr_new, data = ''''::string\<rparr>, m_container = addr_new,
      new_Item = Some \<lparr>next = addr_m_end, data = ''42''\<rparr>\<rparr> = Inr (addr_new, ''42'') \<and>
   iterator_deref
     \<lparr>m_end = \<lparr>next = addr_new, data = ''''::string\<rparr>, m_container = addr_new,
      new_Item = Some \<lparr>next = addr_m_end, data = ''42''\<rparr>\<rparr>
     (Optional_begin \<lparr>m_end = \<lparr>next = addr_new, data = ''''::string\<rparr>, m_container = addr_new,
                      new_Item = Some \<lparr>next = addr_m_end, data = ''42''\<rparr>\<rparr>) = Inr (addr_new, ''42'')"
proof -
  let ?s = "\<lparr>m_end = \<lparr>next = addr_new, data = ''''::string\<rparr>, m_container = addr_new,
            new_Item = Some \<lparr>next = addr_m_end, data = ''42''\<rparr>\<rparr>"
  have c: "constructed (''''::string) (T_copy :: string \<Rightarrow> string + string) ?s"
    by (rule copy_constructed)
  have df: "Optional_defined ?s"
    by (simp add: Optional_defined_def)
  from begin_deref_is_get [OF c df, of "''optional.h''"] c df show ?thesis
    by (simp add: Optional_get_def load_def)
qed

subsection \<open>Set once\<close>

text \<open>
  C8. No sequence of calls of the public member functions (\<^verbatim>\<open>empty\<close>, \<^verbatim>\<open>defined\<close>,
  \<^verbatim>\<open>get\<close>, \<^verbatim>\<open>begin\<close>, \<^verbatim>\<open>end\<close>, the iterator operators and the whole traversal)
  changes the object: after the calls \<^verbatim>\<open>defined()\<close> answers as before, \<^verbatim>\<open>get()\<close>
  returns what it returned before, and the allocated node is the same. A defined
  container stays defined.
\<close>

theorem set_once:
  "snd (invoke_all path cs s) = s \<and>
   Optional_defined (snd (invoke_all path cs s)) = Optional_defined s \<and>
   Optional_get path (snd (invoke_all path cs s)) = Optional_get path s \<and>
   new_Item (snd (invoke_all path cs s)) = new_Item s"
  by (simp add: invoke_all_state)

subsection \<open>Failures\<close>

text \<open>
  C5 fails when the assignment of \<^verbatim>\<open>T\<close> throws. Take a \<^verbatim>\<open>T\<close> whose assignment operator
  throws \<^verbatim>\<open>std::bad_alloc\<close> and leaves its target as it was, and construct an
  \<^verbatim>\<open>Optional<T>\<close> from the value "90". \<^verbatim>\<open>update\<close> fails with that exception after line
  312 has run: \<^verbatim>\<open>m_container\<close> points to the new node, so the object is no longer
  empty, the node is still linked to itself and holds no value, and \<^verbatim>\<open>m_end.next\<close> is
  unchanged. The constructor ends with the exception and the node stays allocated.
\<close>

theorem update_assignment_throws:
  "Optional_update_full T_copy (Inr '''') (\<lambda>t v. Inl (''std::bad_alloc'', t)) ''90''
     (Optional_init '''') =
     (Inl (T_exception ''std::bad_alloc''),
      \<lparr>m_end = \<lparr>next = addr_m_end, data = ''''\<rparr>, m_container = addr_new,
       new_Item = Some \<lparr>next = addr_new, data = ''''\<rparr>\<rparr>) \<and>
   Optional_empty (Optional_init '''') \<and>
   Optional_defined
     \<lparr>m_end = \<lparr>next = addr_m_end, data = ''''\<rparr>, m_container = addr_new,
      new_Item = Some \<lparr>next = addr_new, data = ''''\<rparr>\<rparr> \<and>
   Optional_emplace_full '''' T_copy (Inr '''') (\<lambda>t v. Inl (''std::bad_alloc'', t)) ''90'' =
     Inl (T_exception ''std::bad_alloc'', Some \<lparr>next = addr_new, data = ''''\<rparr>)"
  by (simp add: Optional_emplace_full_def Optional_update_full_def T_copy_def Optional_init_def
      Item_ctor_def Optional_empty_def Optional_defined_def)

text \<open>
  C4. A call of \<^verbatim>\<open>update\<close> on a defined container fails and leaves the object, and
  so the stored value, as it was; when the constructor of \<^verbatim>\<open>T\<close> returns, the failure
  is the \<^verbatim>\<open>std::runtime_error\<close> "Something bad happened in Optional". The public
  interface never reaches that call: \<^verbatim>\<open>update\<close> is private, the two constructors
  that call it do so on the fresh object, whose \<^verbatim>\<open>m_container\<close> is null, so that a
  constructor fails only with an exception of \<^verbatim>\<open>T\<close>, and no public call changes the
  object afterwards.
\<close>

theorem no_reset:
  "(Optional_defined s \<longrightarrow>
      snd (Optional_update d ctor args s) = s \<and>
      (\<exists>f. fst (Optional_update d ctor args s) = Inl f) \<and>
      (\<forall>v. ctor args = Inr v \<longrightarrow>
           fst (Optional_update d ctor args s) =
             Inl (runtime_error ''Something bad happened in Optional''))) \<and>
   Optional_empty (Optional_init d) \<and>
   (\<forall>f. Optional_emplace d ctor args = Inl f \<longrightarrow> (\<exists>e. ctor args = Inl e \<and> f = T_exception e)) \<and>
   (\<forall>f. Optional_copy d v \<noteq> Inl f) \<and>
   snd (invoke_all path cs s) = s"
proof (intro conjI allI impI)
  assume "Optional_defined s"
  then have nn: "m_container s \<noteq> null" by (simp add: Optional_defined_def)
  then show "snd (Optional_update d ctor args s) = s"
    by (cases "ctor args") (simp_all add: Optional_update_def)
  from nn show "\<exists>f. fst (Optional_update d ctor args s) = Inl f"
    by (cases "ctor args") (simp_all add: Optional_update_def)
  fix v
  assume "ctor args = Inr v"
  with nn show "fst (Optional_update d ctor args s) =
             Inl (runtime_error ''Something bad happened in Optional'')"
    by (simp add: Optional_update_def)
next
  show "Optional_empty (Optional_init d)"
    by (simp add: Optional_empty_def Optional_init_def)
next
  fix f
  assume "Optional_emplace d ctor args = Inl f"
  then show "\<exists>e. ctor args = Inl e \<and> f = T_exception e"
    by (cases "ctor args") (simp_all add: Optional_emplace_def update_init update_init_throw)
next
  fix f
  show "Optional_copy d v \<noteq> Inl f" by (simp add: copy_Inr)
next
  show "snd (invoke_all path cs s) = s" by (rule invoke_all_state)
qed

theorem no_reset_witness:
  "Optional_defined \<lparr>m_end = \<lparr>next = addr_new, data = ''''\<rparr>, m_container = addr_new,
                     new_Item = Some \<lparr>next = addr_m_end, data = ''42''\<rparr>\<rparr> \<and>
   T_copy ''90'' = Inr ''90'' \<and>
   Optional_update '''' T_copy ''90''
     \<lparr>m_end = \<lparr>next = addr_new, data = ''''\<rparr>, m_container = addr_new,
      new_Item = Some \<lparr>next = addr_m_end, data = ''42''\<rparr>\<rparr> =
     (Inl (runtime_error ''Something bad happened in Optional''),
      \<lparr>m_end = \<lparr>next = addr_new, data = ''''\<rparr>, m_container = addr_new,
       new_Item = Some \<lparr>next = addr_m_end, data = ''42''\<rparr>\<rparr>)"
  using no_reset [where s = "\<lparr>m_end = \<lparr>next = addr_new, data = ''''\<rparr>, m_container = addr_new,
                             new_Item = Some \<lparr>next = addr_m_end, data = ''42''\<rparr>\<rparr>"
                    and ctor = T_copy and args = "''90''" and d = "''''"]
  by (simp add: Optional_defined_def T_copy_def prod_eq_iff)

subsection \<open>The sentinel\<close>

text \<open>
  C6, as the code has it. On a container returned by one of the three constructors,
  \<^verbatim>\<open>end()\<close> is the address of the embedded node \<^verbatim>\<open>m_end\<close> and differs from the node
  that holds the value. On an empty one \<^verbatim>\<open>begin()\<close> equals \<^verbatim>\<open>end()\<close>; on a defined one
  \<^verbatim>\<open>begin()\<close> differs from \<^verbatim>\<open>end()\<close> and one increment reaches \<^verbatim>\<open>end()\<close>. The traversal
  ends and none of the references it yields is to the sentinel. Dereferencing
  \<^verbatim>\<open>end()\<close> is not guarded: it throws nothing and returns a reference to the \<^verbatim>\<open>data\<close> of
  the sentinel, which holds \<open>d\<close>, whatever default-initialisation left there.
\<close>

theorem sentinel_protocol:
  assumes "constructed d ctor s"
  shows "Optional_end s = iterator addr_m_end \<and>
         m_node (Optional_end s) \<noteq> m_container s \<and>
         (Optional_empty s \<longrightarrow> iterator_eq (Optional_begin s) (Optional_end s)) \<and>
         (Optional_defined s \<longrightarrow>
            iterator_neq (Optional_begin s) (Optional_end s) \<and>
            iterator_inc s (Optional_begin s) = Inr (Optional_end s)) \<and>
         (\<exists>rs. traverse s = Some (Inr rs) \<and> addr_m_end \<notin> fst ` set rs) \<and>
         iterator_deref s (Optional_end s) = Inr (addr_m_end, d)"
  using constructed_shape [OF assms]
proof (elim disjE exE)
  assume s: "s = Optional_init d"
  have "traverse s = Some (Inr [])"
    unfolding s by (rule traverse_init)
  then have "\<exists>rs. traverse s = Some (Inr rs) \<and> addr_m_end \<notin> fst ` set rs"
    by simp
  moreover from s have "Optional_end s = iterator addr_m_end \<and>
         m_node (Optional_end s) \<noteq> m_container s \<and>
         (Optional_empty s \<longrightarrow> iterator_eq (Optional_begin s) (Optional_end s)) \<and>
         (Optional_defined s \<longrightarrow>
            iterator_neq (Optional_begin s) (Optional_end s) \<and>
            iterator_inc s (Optional_begin s) = Inr (Optional_end s)) \<and>
         iterator_deref s (Optional_end s) = Inr (addr_m_end, d)"
    by (simp add: Optional_init_def Item_ctor_def Optional_end_def Optional_begin_def
        Optional_empty_def Optional_defined_def iterator_eq_def iterator_deref_def load_def)
  ultimately show ?thesis by (intro conjI) (elim conjE, assumption)+
next
  fix v
  assume s: "s = \<lparr>m_end = \<lparr>next = addr_new, data = d\<rparr>, m_container = addr_new,
               new_Item = Some \<lparr>next = addr_m_end, data = v\<rparr>\<rparr>"
  have "traverse s = Some (Inr [(addr_new, v)])"
    unfolding s by (rule traverse_set)
  then have "\<exists>rs. traverse s = Some (Inr rs) \<and> addr_m_end \<notin> fst ` set rs"
    by simp
  moreover from s have "Optional_end s = iterator addr_m_end \<and>
         m_node (Optional_end s) \<noteq> m_container s \<and>
         (Optional_empty s \<longrightarrow> iterator_eq (Optional_begin s) (Optional_end s)) \<and>
         (Optional_defined s \<longrightarrow>
            iterator_neq (Optional_begin s) (Optional_end s) \<and>
            iterator_inc s (Optional_begin s) = Inr (Optional_end s)) \<and>
         iterator_deref s (Optional_end s) = Inr (addr_m_end, d)"
    by (simp add: Optional_end_def Optional_begin_def Optional_empty_def Optional_defined_def
        iterator_neq_def iterator_inc_def iterator_deref_def load_def)
  ultimately show ?thesis by (intro conjI) (elim conjE, assumption)+
qed

theorem sentinel_protocol_witness:
  "constructed (''''::string) (T_copy :: string \<Rightarrow> string + string) (Optional_init '''') \<and>
   Optional_empty (Optional_init (''''::string)) \<and>
   iterator_eq (Optional_begin (Optional_init (''''::string))) (Optional_end (Optional_init (''''::string))) \<and>
   Optional_defined \<lparr>m_end = \<lparr>next = addr_new, data = ''''::string\<rparr>, m_container = addr_new,
                     new_Item = Some \<lparr>next = addr_m_end, data = ''42''\<rparr>\<rparr> \<and>
   iterator_inc
     \<lparr>m_end = \<lparr>next = addr_new, data = ''''::string\<rparr>, m_container = addr_new,
      new_Item = Some \<lparr>next = addr_m_end, data = ''42''\<rparr>\<rparr>
     (Optional_begin \<lparr>m_end = \<lparr>next = addr_new, data = ''''::string\<rparr>, m_container = addr_new,
                      new_Item = Some \<lparr>next = addr_m_end, data = ''42''\<rparr>\<rparr>) =
     Inr (iterator addr_m_end)"
  using sentinel_protocol [OF default_constructed [of "''''::string" "T_copy :: string \<Rightarrow> string + string"]]
        sentinel_protocol [OF copy_constructed [of "''''::string" "T_copy :: string \<Rightarrow> string + string" "''42''"]]
        default_constructed [of "''''::string" "T_copy :: string \<Rightarrow> string + string"]
  by (simp add: Optional_empty_def Optional_defined_def Optional_init_def Optional_end_def)

text \<open>
  C6 as stated fails twice. On a default-constructed \<^verbatim>\<open>Optional<std::string>\<close>,
  whose sentinel holds the empty string, dereferencing \<^verbatim>\<open>end()\<close> returns a reference
  to that string; no guard stops it. And on a copy of that container made by the
  implicit copy constructor or copy assignment, which is empty too, \<^verbatim>\<open>begin()\<close> differs
  from \<^verbatim>\<open>end()\<close>: the loop does not stop after 0 steps, it dereferences the sentinel
  of the original, and the increment leaves it there.
\<close>

theorem sentinel_deref_unguarded:
  "iterator_deref (Optional_default '''') (Optional_end (Optional_default '''')) =
     Inr (addr_m_end, '''') \<and>
   copy_empty (implicit_copy (Optional_default '''')) \<and>
   copy_neq (copy_begin (implicit_copy (Optional_default '''')))
            (copy_end (implicit_copy (Optional_default ''''))) \<and>
   copy_deref (Optional_default '''') (implicit_copy (Optional_default ''''))
     (copy_begin (implicit_copy (Optional_default ''''))) =
     Inr (in_original addr_m_end, '''') \<and>
   copy_inc (Optional_default '''') (implicit_copy (Optional_default ''''))
     (copy_begin (implicit_copy (Optional_default ''''))) =
     Inr (copy_begin (implicit_copy (Optional_default '''')))"
  by (simp add: iterator_deref_def Optional_end_def Optional_default_def Optional_init_def
      Item_ctor_def load_def copy_empty_def implicit_copy_def copy_neq_def copy_begin_def
      copy_end_def copy_deref_def copy_inc_def copy_load_def)

end
